theory Spec2Isabelle
  imports Main "HOL-Library.Stream"
begin

section \<open>Values and domain types of the user service\<close>

text \<open>
  The TypeScript type \<^verbatim>\<open>unknown\<close> is inhabited by arbitrary JavaScript values.  The
  service only ever passes strings, numbers, dates, arrays and plain objects through
  positions of that type (query parameters, logger metadata, error causes, response
  bodies), so these are the constructors of the model.  A \<^verbatim>\<open>Date\<close> is its number of
  milliseconds since the epoch.  Strings are lists of 8-bit characters.
\<close>

datatype unknown =
    JUndefined
  | JString string
  | JNumber int
  | JDate int
  | JArray "unknown list"
  | JObject "(string \<times> unknown) list"

text \<open>
  \<^verbatim>\<open>interface User { id; email; name; createdAt }\<close>.  The fields carry a prefix because
  \<open>id\<close> is a constant of HOL and the two input interfaces reuse \<open>email\<close> and \<open>name\<close>.
\<close>

record User =
  user_id :: string
  user_email :: string
  user_name :: string
  user_createdAt :: int

record CreateUserInput =
  create_email :: string
  create_name :: string

text \<open>Optional fields (\<^verbatim>\<open>email?: string\<close>) are \<open>None\<close> when the property is absent.\<close>

record UpdateUserInput =
  update_email :: "string option"
  update_name :: "string option"

record UserProfile =
  user :: User
  accountAge :: int
  isNewUser :: bool

subsection \<open>Tagged errors\<close>

text \<open>
  Each error class is a datatype of its own, since the service interfaces mention them
  one by one (\<^verbatim>\<open>Effect<T[], DatabaseError>\<close>); \<open>UserError\<close> is the union type
  \<^verbatim>\<open>UserNotFoundError | DatabaseError | ValidationError | CacheError\<close>.  The optional
  \<^verbatim>\<open>cause?: unknown\<close> is \<open>JUndefined\<close> when omitted.
\<close>

datatype UserNotFoundError = UserNotFoundError (userId: string)

datatype DatabaseError = DatabaseError (db_message: string) (db_cause: unknown)

datatype ValidationError = ValidationError (message: string) (field: "string option")

datatype CacheError = CacheError (cache_message: string) (cache_cause: unknown)

datatype UserError =
    ENotFound UserNotFoundError
  | EDatabase DatabaseError
  | EValidation ValidationError
  | ECache CacheError

text \<open>The discriminant \<^verbatim>\<open>readonly _tag = "..."\<close> of the four classes.\<close>

fun tag :: "UserError \<Rightarrow> string" where
  "tag (ENotFound _) = ''UserNotFoundError''"
| "tag (EDatabase _) = ''DatabaseError''"
| "tag (EValidation _) = ''ValidationError''"
| "tag (ECache _) = ''CacheError''"

text \<open>An error object seen at type \<^verbatim>\<open>unknown\<close> (the second argument of \<^verbatim>\<open>logger.error\<close>).\<close>

definition optString :: "string option \<Rightarrow> unknown" where
  "optString s = (case s of None \<Rightarrow> JUndefined | Some v \<Rightarrow> JString v)"

fun toUnknown :: "UserError \<Rightarrow> unknown" where
  "toUnknown (ENotFound e) =
     JObject [(''_tag'', JString ''UserNotFoundError''), (''userId'', JString (userId e))]"
| "toUnknown (EDatabase e) =
     JObject [(''_tag'', JString ''DatabaseError''), (''message'', JString (db_message e)),
              (''cause'', db_cause e)]"
| "toUnknown (EValidation e) =
     JObject [(''_tag'', JString ''ValidationError''), (''message'', JString (message e)),
              (''field'', optString (field e))]"
| "toUnknown (ECache e) =
     JObject [(''_tag'', JString ''CacheError''), (''message'', JString (cache_message e)),
              (''cause'', cache_cause e)]"

section \<open>The world outside the program\<close>

text \<open>
  What the program reads and writes besides its services: the clock behind
  \<^verbatim>\<open>Date.now()\<close> and \<^verbatim>\<open>new Date()\<close>, the console, and the source of
  \<^verbatim>\<open>crypto.randomUUID()\<close>.  The record is extensible: the state of a service
  implementation (a real database, a real cache) lives in the extension, and a service may
  change any part of the world, so time may pass during a call.
\<close>

datatype console_entry =
    ConsoleLog "unknown list"
  | ConsoleError "unknown list"
  | ConsoleDebug "unknown list"

record world =
  clock :: int
  console :: "console_entry list"
  uuids :: "string stream"

definition Date_now :: "'x world_scheme \<Rightarrow> int" where
  "Date_now w = clock w"

definition randomUUID :: "'x world_scheme \<Rightarrow> string \<times> 'x world_scheme" where
  "randomUUID w = (shd (uuids w), w\<lparr>uuids := stl (uuids w)\<rparr>)"

definition sleep :: "int \<Rightarrow> 'x world_scheme \<Rightarrow> 'x world_scheme" where
  "sleep ms w = w\<lparr>clock := clock w + ms\<rparr>"

section \<open>Effect values\<close>

text \<open>
  Modelled from the spec: the combinators of the \<^verbatim>\<open>effect\<close> package
  (\<^verbatim>\<open>Effect.succeed\<close>, \<^verbatim>\<open>fail\<close>, \<^verbatim>\<open>map\<close>, \<^verbatim>\<open>flatMap\<close> and the
  \<^verbatim>\<open>yield*\<close> of \<^verbatim>\<open>Effect.gen\<close>, \<^verbatim>\<open>catchTag\<close>, \<^verbatim>\<open>catchAll\<close>,
  \<^verbatim>\<open>partition\<close>, \<^verbatim>\<open>retry\<close>, \<^verbatim>\<open>Schedule\<close>, \<^verbatim>\<open>provide\<close>,
  \<^verbatim>\<open>runPromise\<close>) are imported by the service and are not part of its source.  They follow
  section 4 of the specification.

  An effect value \<^verbatim>\<open>Effect<A, E, never>\<close> is an inert description: a function that, once
  run in a world, returns the failure (\<open>Inl\<close>) or the success (\<open>Inr\<close>) and the world it
  leaves behind.  The requirement parameter \<^verbatim>\<open>R\<close> is an explicit argument of type
  \<open>Context\<close> (below): \<^verbatim>\<open>Effect<A, E, Database | Cache | Logger>\<close> is a function from the
  context to such a value, and \<^verbatim>\<open>yield* Logger\<close> selects a field of it.  Defects and
  interruption are outside the typed error channel and are not modelled.
\<close>

type_synonym ('e, 'a, 'w) Effect = "'w \<Rightarrow> ('e + 'a) \<times> 'w"

text \<open>An effect whose error type is \<^verbatim>\<open>never\<close> and whose result is \<^verbatim>\<open>void\<close>.\<close>

type_synonym 'w UIO = "'w \<Rightarrow> 'w"

text \<open>
  Modelled from the spec: \<^verbatim>\<open>Effect.succeed\<close> of the \<^verbatim>\<open>effect\<close> package.  It yields
  the value and has no side effect.
\<close>

definition Effect_succeed :: "'a \<Rightarrow> ('e, 'a, 'w) Effect" where
  "Effect_succeed v = (\<lambda>w. (Inr v, w))"

text \<open>
  Modelled from the spec: \<^verbatim>\<open>Effect.fail\<close> of the \<^verbatim>\<open>effect\<close> package.  Its execution
  always yields that error.
\<close>

definition Effect_fail :: "'e \<Rightarrow> ('e, 'a, 'w) Effect" where
  "Effect_fail e = (\<lambda>w. (Inl e, w))"

text \<open>
  Modelled from the spec: \<^verbatim>\<open>Effect.map\<close> of the \<^verbatim>\<open>effect\<close> package.  It transforms the
  success value on completion and leaves a failure as it is.
\<close>

definition Effect_map :: "('e, 'a, 'w) Effect \<Rightarrow> ('a \<Rightarrow> 'b) \<Rightarrow> ('e, 'b, 'w) Effect" where
  "Effect_map m f = (\<lambda>w. case m w of
       (Inl e, w') \<Rightarrow> (Inl e, w')
     | (Inr a, w') \<Rightarrow> (Inr (f a), w'))"

text \<open>
  Modelled from the spec: \<^verbatim>\<open>Effect.flatMap\<close> of the \<^verbatim>\<open>effect\<close> package, which is also
  what one \<^verbatim>\<open>yield*\<close> followed by the rest of an \<^verbatim>\<open>Effect.gen\<close> body does.  It runs
  the effect; on success it feeds the value into the continuation and runs the effect that
  returns; on failure it short-circuits.
\<close>

definition Effect_flatMap ::
  "('e, 'a, 'w) Effect \<Rightarrow> ('a \<Rightarrow> ('e, 'b, 'w) Effect) \<Rightarrow> ('e, 'b, 'w) Effect" where
  "Effect_flatMap m f = (\<lambda>w. case m w of
       (Inl e, w') \<Rightarrow> (Inl e, w')
     | (Inr a, w') \<Rightarrow> f a w')"

text \<open>
  Modelled from the spec: \<^verbatim>\<open>Effect.catchTag\<close> of the \<^verbatim>\<open>effect\<close> package.  It intercepts
  the failures whose \<^verbatim>\<open>_tag\<close> is the one named and routes them to the handler; all
  other failures propagate unchanged.
\<close>

definition Effect_catchTag ::
  "(UserError, 'a, 'w) Effect \<Rightarrow> string \<Rightarrow> (UserError \<Rightarrow> (UserError, 'a, 'w) Effect)
     \<Rightarrow> (UserError, 'a, 'w) Effect" where
  "Effect_catchTag m t handler = (\<lambda>w. case m w of
       (Inl e, w') \<Rightarrow> (if tag e = t then handler e w' else (Inl e, w'))
     | (Inr a, w') \<Rightarrow> (Inr a, w'))"

text \<open>
  Modelled from the spec: \<^verbatim>\<open>Effect.catchAll\<close> of the \<^verbatim>\<open>effect\<close> package.  It intercepts
  every failure.
\<close>

definition Effect_catchAll ::
  "('e, 'a, 'w) Effect \<Rightarrow> ('e \<Rightarrow> ('f, 'a, 'w) Effect) \<Rightarrow> ('f, 'a, 'w) Effect" where
  "Effect_catchAll m handler = (\<lambda>w. case m w of
       (Inl e, w') \<Rightarrow> handler e w'
     | (Inr a, w') \<Rightarrow> (Inr a, w'))"

text \<open>
  TypeScript widens an error type to a union silently (\<^verbatim>\<open>CacheError\<close> to
  \<^verbatim>\<open>UserError\<close>); in HOL the injection is written out.  \<open>infallible\<close> is the same
  step for an \<^verbatim>\<open>Effect<void>\<close>, whose error type \<^verbatim>\<open>never\<close> is below every other.
\<close>

definition widen :: "('e \<Rightarrow> 'f) \<Rightarrow> ('e, 'a, 'w) Effect \<Rightarrow> ('f, 'a, 'w) Effect" where
  "widen up m = (\<lambda>w. case m w of
       (Inl e, w') \<Rightarrow> (Inl (up e), w')
     | (Inr a, w') \<Rightarrow> (Inr a, w'))"

definition infallible :: "'w UIO \<Rightarrow> ('e, unit, 'w) Effect" where
  "infallible m = (\<lambda>w. (Inr (), m w))"

section \<open>Service definitions\<close>

text \<open>
  The three \<^verbatim>\<open>Context.Tag\<close> classes.  The generic \<^verbatim>\<open>query<T>\<close> and \<^verbatim>\<open>get<T>\<close>
  are used at \<^verbatim>\<open>T = User\<close> only.  Field names carry the service as a prefix
  (\<open>set\<close> is the HOL constant for the elements of a list).
\<close>

record 'w Database =
  db_query :: "string \<Rightarrow> unknown list \<Rightarrow> (DatabaseError, User list, 'w) Effect"
  db_execute :: "string \<Rightarrow> unknown list \<Rightarrow> (DatabaseError, unit, 'w) Effect"

record 'w Cache =
  cache_get :: "string \<Rightarrow> (CacheError, User option, 'w) Effect"
  cache_set :: "string \<Rightarrow> User \<Rightarrow> int option \<Rightarrow> (CacheError, unit, 'w) Effect"
  cache_delete :: "string \<Rightarrow> (CacheError, unit, 'w) Effect"

type_synonym meta = "(string \<times> unknown) list"

record 'w Logger =
  log_info :: "string \<Rightarrow> meta option \<Rightarrow> 'w UIO"
  log_error :: "string \<Rightarrow> unknown \<Rightarrow> meta option \<Rightarrow> 'w UIO"
  log_debug :: "string \<Rightarrow> meta option \<Rightarrow> 'w UIO"

text \<open>The context an effect of requirement \<^verbatim>\<open>Database | Cache | Logger\<close> runs in.\<close>

record 'w Context =
  database :: "'w Database"
  cache :: "'w Cache"
  logger :: "'w Logger"

section \<open>User repository\<close>

definition findUserById :: "'w Context \<Rightarrow> string \<Rightarrow> (UserError, User, 'w) Effect" where
  "findUserById ctx uid =
     Effect_flatMap
       (infallible (log_debug (logger ctx) ''Finding user by ID'' (Some [(''userId'', JString uid)])))
       (\<lambda>_. Effect_flatMap
          (Effect_catchTag
             (widen ECache (cache_get (cache ctx) (''user:'' @ uid)))
             ''CacheError''
             (\<lambda>error. Effect_flatMap
                (infallible (log_error (logger ctx) ''Cache error while fetching user''
                   (toUnknown error) (Some [(''userId'', JString uid)])))
                (\<lambda>_. Effect_succeed None)))
          (\<lambda>cached. case cached of
               Some v \<Rightarrow>
                 Effect_flatMap
                   (infallible (log_debug (logger ctx) ''User found in cache''
                      (Some [(''userId'', JString uid)])))
                   (\<lambda>_. Effect_succeed v)
             | None \<Rightarrow>
                 Effect_flatMap
                   (widen EDatabase
                      (db_query (database ctx) ''SELECT * FROM users WHERE id = ?'' [JString uid]))
                   (\<lambda>results. case results of
                        [] \<Rightarrow> Effect_fail (ENotFound (UserNotFoundError uid))
                      | u # _ \<Rightarrow>
                          Effect_flatMap
                            (Effect_catchTag
                               (widen ECache (cache_set (cache ctx) (''user:'' @ uid) u (Some 300)))
                               ''CacheError''
                               (\<lambda>error. infallible (log_error (logger ctx) ''Failed to cache user''
                                  (toUnknown error) (Some [(''userId'', JString uid)]))))
                            (\<lambda>_. Effect_succeed u))))"

definition findUserByEmail ::
  "'w Context \<Rightarrow> string \<Rightarrow> (DatabaseError, User option, 'w) Effect" where
  "findUserByEmail ctx addr =
     Effect_flatMap
       (infallible (log_debug (logger ctx) ''Finding user by email'' (Some [(''email'', JString addr)])))
       (\<lambda>_. Effect_flatMap
          (db_query (database ctx) ''SELECT * FROM users WHERE email = ?'' [JString addr])
          (\<lambda>results. Effect_succeed (case results of [] \<Rightarrow> None | u # _ \<Rightarrow> Some u)))"

text \<open>
  \<^verbatim>\<open>crypto.randomUUID()\<close> and \<^verbatim>\<open>new Date()\<close> are evaluated, in this order, when the
  object literal is built, between the duplicate check and the insert.
\<close>

definition createUser :: "'x world_scheme Context \<Rightarrow> CreateUserInput
    \<Rightarrow> (UserError, User, 'x world_scheme) Effect" where
  "createUser ctx input =
     Effect_flatMap
       (infallible (log_info (logger ctx) ''Creating new user''
          (Some [(''email'', JString (create_email input))])))
       (\<lambda>_. Effect_flatMap
          (widen EDatabase (findUserByEmail ctx (create_email input)))
          (\<lambda>existing. case existing of
               Some _ \<Rightarrow> Effect_fail (EValidation (ValidationError ''Email already in use'' (Some ''email'')))
             | None \<Rightarrow>
                 (\<lambda>w. case randomUUID w of (uuid, w1) \<Rightarrow>
                    (let u = \<lparr>user_id = uuid, user_email = create_email input,
                              user_name = create_name input, user_createdAt = Date_now w1\<rparr>
                     in Effect_flatMap
                          (widen EDatabase
                             (db_execute (database ctx)
                                ''INSERT INTO users (id, email, name, created_at) VALUES (?, ?, ?, ?)''
                                [JString (user_id u), JString (user_email u), JString (user_name u),
                                 JDate (user_createdAt u)]))
                          (\<lambda>_. Effect_succeed u) w1))))"

text \<open>
  \<^verbatim>\<open>Object.keys(input)\<close>: the properties present, \<open>email\<close> before \<open>name\<close>.
\<close>

definition Object_keys :: "UpdateUserInput \<Rightarrow> string list" where
  "Object_keys input =
     (case update_email input of None \<Rightarrow> [] | Some _ \<Rightarrow> [''email'']) @
     (case update_name input of None \<Rightarrow> [] | Some _ \<Rightarrow> [''name''])"

text \<open>
  In \<^verbatim>\<open>input.email && input.email !== user.email\<close> the empty string is falsy, as
  \<^verbatim>\<open>undefined\<close> is; \<^verbatim>\<open>input.email ?? user.email\<close> replaces \<^verbatim>\<open>undefined\<close> only.
\<close>

definition updateUser :: "'w Context \<Rightarrow> string \<Rightarrow> UpdateUserInput \<Rightarrow> (UserError, User, 'w) Effect" where
  "updateUser ctx uid input =
     Effect_flatMap
       (infallible (log_info (logger ctx) ''Updating user''
          (Some [(''userId'', JString uid), (''fields'', JArray (map JString (Object_keys input)))])))
       (\<lambda>_. Effect_flatMap (findUserById ctx uid)
          (\<lambda>usr. Effect_flatMap
             (case update_email input of
                  None \<Rightarrow> Effect_succeed ()
                | Some addr \<Rightarrow>
                    if addr \<noteq> [] \<and> addr \<noteq> user_email usr
                    then Effect_flatMap (widen EDatabase (findUserByEmail ctx addr))
                           (\<lambda>existing. case existing of
                                Some _ \<Rightarrow> Effect_fail
                                  (EValidation (ValidationError ''Email already in use'' (Some ''email'')))
                              | None \<Rightarrow> Effect_succeed ())
                    else Effect_succeed ())
             (\<lambda>_. let updated = usr
                        \<lparr>user_email := (case update_email input of None \<Rightarrow> user_email usr | Some v \<Rightarrow> v),
                         user_name := (case update_name input of None \<Rightarrow> user_name usr | Some v \<Rightarrow> v)\<rparr>
                  in Effect_flatMap
                       (widen EDatabase
                          (db_execute (database ctx) ''UPDATE users SET email = ?, name = ? WHERE id = ?''
                             [JString (user_email updated), JString (user_name updated), JString uid]))
                       (\<lambda>_. Effect_flatMap
                          (Effect_catchTag
                             (widen ECache (cache_delete (cache ctx) (''user:'' @ uid)))
                             ''CacheError''
                             (\<lambda>error. infallible (log_error (logger ctx)
                                ''Failed to invalidate user cache''
                                (toUnknown error) (Some [(''userId'', JString uid)]))))
                          (\<lambda>_. Effect_succeed updated)))))"

section \<open>User service\<close>

text \<open>
  \<^verbatim>\<open>Math.floor(accountAgeMs / (1000 * 60 * 60 * 24))\<close> is the floor division of HOL's
  \<open>div\<close> on integers.
\<close>

definition getUserProfile ::
  "'x world_scheme Context \<Rightarrow> string \<Rightarrow> (UserError, UserProfile, 'x world_scheme) Effect" where
  "getUserProfile ctx uid =
     Effect_flatMap (findUserById ctx uid)
       (\<lambda>usr w.
          (let accountAgeMs = Date_now w - user_createdAt usr;
               accountAgeDays = accountAgeMs div (1000 * 60 * 60 * 24)
           in (Inr \<lparr>user = usr, accountAge = accountAgeDays, isNewUser = (accountAgeDays < 30)\<rparr>, w)))"

subsection \<open>Regular expressions\<close>

text \<open>
  Enough of JavaScript's regular expressions for \<^verbatim>\<open>/^[^\s@]+@[^\s@]+\.[^\s@]+$/\<close>:
  negated character classes, literals, sequence and repetition, matched by derivatives.
  The pattern is anchored at both ends, so \<^verbatim>\<open>test\<close> asks for a match of the whole string.
\<close>

datatype regex =
    REmpty
  | REps
  | RLit char
  | RNoneOf "char list"
  | RAlt regex regex
  | RSeq regex regex
  | RStar regex

definition RPlus :: "regex \<Rightarrow> regex" where
  "RPlus r = RSeq r (RStar r)"

fun nullable :: "regex \<Rightarrow> bool" where
  "nullable REmpty = False"
| "nullable REps = True"
| "nullable (RLit _) = False"
| "nullable (RNoneOf _) = False"
| "nullable (RAlt r s) = (nullable r \<or> nullable s)"
| "nullable (RSeq r s) = (nullable r \<and> nullable s)"
| "nullable (RStar _) = True"

fun deriv :: "char \<Rightarrow> regex \<Rightarrow> regex" where
  "deriv c REmpty = REmpty"
| "deriv c REps = REmpty"
| "deriv c (RLit d) = (if c = d then REps else REmpty)"
| "deriv c (RNoneOf cs) = (if c \<in> set cs then REmpty else REps)"
| "deriv c (RAlt r s) = RAlt (deriv c r) (deriv c s)"
| "deriv c (RSeq r s) =
     (if nullable r then RAlt (RSeq (deriv c r) s) (deriv c s) else RSeq (deriv c r) s)"
| "deriv c (RStar r) = RSeq (deriv c r) (RStar r)"

definition regex_test :: "regex \<Rightarrow> string \<Rightarrow> bool" where
  "regex_test r s = nullable (foldl (\<lambda>q c. deriv c q) r s)"

text \<open>
  \<^verbatim>\<open>[^\s@]\<close>: the white space of \<^verbatim>\<open>\s\<close> among 8-bit characters is tab, line feed,
  vertical tab, form feed, carriage return, space and the no-break space.
\<close>

definition notSpaceOrAt :: regex where
  "notSpaceOrAt =
     RNoneOf [CHR 0x09, CHR 0x0A, CHR 0x0B, CHR 0x0C, CHR 0x0D, CHR 0x20, CHR 0xA0, CHR ''@'']"

definition emailRegex :: regex where
  "emailRegex =
     RSeq (RPlus notSpaceOrAt)
       (RSeq (RLit CHR ''@'')
          (RSeq (RPlus notSpaceOrAt)
             (RSeq (RLit CHR ''.'') (RPlus notSpaceOrAt))))"

definition validateEmail :: "string \<Rightarrow> (ValidationError, string, 'w) Effect" where
  "validateEmail addr =
     (if regex_test emailRegex addr
      then Effect_succeed addr
      else Effect_fail (ValidationError ''Invalid email format'' (Some ''email'')))"

definition validateName :: "string \<Rightarrow> (ValidationError, string, 'w) Effect" where
  "validateName nm =
     (if length nm \<ge> 2
      then Effect_succeed nm
      else Effect_fail (ValidationError ''Name must be at least 2 characters'' (Some ''name'')))"

definition registerUser :: "'x world_scheme Context \<Rightarrow> CreateUserInput
    \<Rightarrow> (UserError, User, 'x world_scheme) Effect" where
  "registerUser ctx input =
     Effect_flatMap (widen EValidation (validateEmail (create_email input)))
       (\<lambda>_. Effect_flatMap (widen EValidation (validateName (create_name input)))
          (\<lambda>_. createUser ctx input))"

section \<open>HTTP layer\<close>

record HttpResponse =
  status :: int
  body :: unknown

text \<open>
  Property access on an error object: \<^verbatim>\<open>error.message\<close>, \<^verbatim>\<open>error.field\<close>.  A property
  the object does not have reads as \<^verbatim>\<open>undefined\<close>.
\<close>

definition getProp :: "UserError \<Rightarrow> string \<Rightarrow> unknown" where
  "getProp e k =
     (case toUnknown e of
        JObject kvs \<Rightarrow> (case map_of kvs k of None \<Rightarrow> JUndefined | Some v \<Rightarrow> v)
      | _ \<Rightarrow> JUndefined)"

text \<open>
  The \<^verbatim>\<open>switch (error._tag)\<close> has no \<^verbatim>\<open>default\<close>: a tag that matches no
  \<^verbatim>\<open>case\<close> falls out of the statement and the function returns \<^verbatim>\<open>undefined\<close>, which is
  \<open>None\<close> here.
\<close>

definition mapErrorToResponse :: "UserError \<Rightarrow> HttpResponse option" where
  "mapErrorToResponse error =
     (if tag error = ''UserNotFoundError'' then
        Some \<lparr>status = 404, body = JObject [(''error'', JString ''User not found'')]\<rparr>
      else if tag error = ''ValidationError'' then
        Some \<lparr>status = 400,
              body = JObject [(''error'', getProp error ''message''), (''field'', getProp error ''field'')]\<rparr>
      else if tag error = ''DatabaseError'' then
        Some \<lparr>status = 503, body = JObject [(''error'', JString ''Service unavailable'')]\<rparr>
      else if tag error = ''CacheError'' then
        Some \<lparr>status = 503, body = JObject [(''error'', JString ''Service degraded'')]\<rparr>
      else None)"

section \<open>Batch processing\<close>

text \<open>
  Modelled from the spec: \<^verbatim>\<open>Effect.partition\<close> of the \<^verbatim>\<open>effect\<close> package, which is not
  part of the service's source.  It never fails and returns the failures and the successes
  of the items; without a \<^verbatim>\<open>concurrency\<close> option the items run one after the other, in
  the order of the input, and both sequences keep that order.
\<close>

fun partition_run :: "'a list \<Rightarrow> ('a \<Rightarrow> ('e, 'b, 'w) Effect) \<Rightarrow> 'w \<Rightarrow> ('e list \<times> 'b list) \<times> 'w" where
  "partition_run [] f w = (([], []), w)"
| "partition_run (x # xs) f w =
     (case f x w of (r, w') \<Rightarrow>
        (case partition_run xs f w' of ((es, bs), w'') \<Rightarrow>
           (case r of Inl e \<Rightarrow> ((e # es, bs), w'') | Inr b \<Rightarrow> ((es, b # bs), w''))))"

definition Effect_partition ::
  "'a list \<Rightarrow> ('a \<Rightarrow> ('e, 'b, 'w) Effect) \<Rightarrow> ('f, 'e list \<times> 'b list, 'w) Effect" where
  "Effect_partition xs f = (\<lambda>w. case partition_run xs f w of (p, w') \<Rightarrow> (Inr p, w'))"

text \<open>
  The two element types of the result of \<^verbatim>\<open>processUserBatch\<close>,
  \<^verbatim>\<open>{ userId: string; profile: UserProfile }\<close> and \<^verbatim>\<open>{ userId: string; error: string }\<close>.
\<close>

record BatchSuccess =
  ok_userId :: string
  ok_profile :: UserProfile

record BatchFailure =
  failed_userId :: string
  failed_error :: string

record BatchResult =
  successful :: "BatchSuccess list"
  failed :: "BatchFailure list"

definition processUserBatch ::
  "'x world_scheme Context \<Rightarrow> string list \<Rightarrow> ('f, BatchResult, 'x world_scheme) Effect" where
  "processUserBatch ctx userIds =
     Effect_map
       (Effect_partition userIds
          (\<lambda>uid. Effect_map (getUserProfile ctx uid)
             (\<lambda>profile. \<lparr>ok_userId = uid, ok_profile = profile\<rparr>)))
       (\<lambda>(failures, successes).
          \<lparr>successful = successes,
           failed = map (\<lambda>error. \<lparr>failed_userId = ''unknown'', failed_error = tag error\<rparr>) failures\<rparr>)"

subsection \<open>Retrying\<close>

text \<open>
  Modelled from the spec: \<^verbatim>\<open>Schedule.recurs\<close>, \<^verbatim>\<open>Schedule.exponential\<close>,
  \<^verbatim>\<open>Schedule.compose\<close> and \<^verbatim>\<open>Effect.retry\<close> of the \<^verbatim>\<open>effect\<close> package, which
  are not part of the service's source.  A schedule is a state machine: from its state it
  either stops (\<open>None\<close>) or recurs once more after a delay in milliseconds.
  \<^verbatim>\<open>recurs(n)\<close> recurs \<open>n\<close> times without delay; \<^verbatim>\<open>exponential(base)\<close> recurs
  forever, the \<open>k\<close>-th delay being \<open>base * 2 ^ k\<close>; the composition of two schedules recurs
  as long as both do, after the longer of the two delays.  \<^verbatim>\<open>retry\<close> runs the effect;
  a success ends it; on a failure it asks the schedule, surfaces the failure when the
  schedule stops, and otherwise sleeps and runs the effect again.  The loop need not end
  (an effect that always fails under \<^verbatim>\<open>exponential\<close> alone), so it lives in the option
  monad: \<open>None\<close> is a run that never returns.
\<close>

record 's Schedule =
  sched_initial :: 's
  sched_step :: "'s \<Rightarrow> ('s \<times> int) option"

definition Schedule_recurs :: "nat \<Rightarrow> nat Schedule" where
  "Schedule_recurs n =
     \<lparr>sched_initial = 0, sched_step = (\<lambda>k. if k < n then Some (Suc k, 0) else None)\<rparr>"

definition Schedule_exponential :: "int \<Rightarrow> nat Schedule" where
  "Schedule_exponential base =
     \<lparr>sched_initial = 0, sched_step = (\<lambda>k. Some (Suc k, base * 2 ^ k))\<rparr>"

definition Schedule_compose :: "'s Schedule \<Rightarrow> 't Schedule \<Rightarrow> ('s \<times> 't) Schedule" where
  "Schedule_compose a b =
     \<lparr>sched_initial = (sched_initial a, sched_initial b),
      sched_step = (\<lambda>(sa, sb).
         case sched_step a sa of
           None \<Rightarrow> None
         | Some (sa', da) \<Rightarrow>
             (case sched_step b sb of
                None \<Rightarrow> None
              | Some (sb', db) \<Rightarrow> Some ((sa', sb'), max da db)))\<rparr>"

partial_function (option) retry_loop ::
  "('s \<Rightarrow> ('s \<times> int) option) \<Rightarrow> 's \<Rightarrow> ('e, 'a, 'x world_scheme) Effect \<Rightarrow> 'x world_scheme
     \<Rightarrow> (('e + 'a) \<times> 'x world_scheme) option" where
  "retry_loop stp s m w =
     (case m w of
        (Inr a, w') \<Rightarrow> Some (Inr a, w')
      | (Inl e, w') \<Rightarrow>
          (case stp s of
             None \<Rightarrow> Some (Inl e, w')
           | Some (s', d) \<Rightarrow> retry_loop stp s' m (sleep d w')))"

text \<open>
  Modelled from the spec: \<^verbatim>\<open>Effect.retry\<close> of the \<^verbatim>\<open>effect\<close> package: the loop above,
  started in the initial state of the schedule.
\<close>

definition Effect_retry :: "('e, 'a, 'x world_scheme) Effect \<Rightarrow> 's Schedule \<Rightarrow> 'x world_scheme
     \<Rightarrow> (('e + 'a) \<times> 'x world_scheme) option" where
  "Effect_retry m sched = retry_loop (sched_step sched) (sched_initial sched) m"

definition processWithRetry :: "'x world_scheme Context \<Rightarrow> string \<Rightarrow> 'x world_scheme
     \<Rightarrow> ((UserError + UserProfile) \<times> 'x world_scheme) option" where
  "processWithRetry ctx uid =
     Effect_retry (getUserProfile ctx uid)
       (Schedule_compose (Schedule_exponential 100) (Schedule_recurs 3))"

section \<open>Layer definitions\<close>

text \<open>
  \<^verbatim>\<open>Console.log\<close>, \<^verbatim>\<open>Console.error\<close> and \<^verbatim>\<open>Console.debug\<close> append their arguments
  to the console of the world.
\<close>

definition Console_log :: "unknown list \<Rightarrow> 'x world_scheme UIO" where
  "Console_log args w = w\<lparr>console := console w @ [ConsoleLog args]\<rparr>"

definition Console_error :: "unknown list \<Rightarrow> 'x world_scheme UIO" where
  "Console_error args w = w\<lparr>console := console w @ [ConsoleError args]\<rparr>"

definition Console_debug :: "unknown list \<Rightarrow> 'x world_scheme UIO" where
  "Console_debug args w = w\<lparr>console := console w @ [ConsoleDebug args]\<rparr>"

text \<open>\<^verbatim>\<open>meta ?? {}\<close> and \<^verbatim>\<open>error ?? "unknown"\<close>.\<close>

definition metaOrEmpty :: "meta option \<Rightarrow> unknown" where
  "metaOrEmpty m = JObject (case m of None \<Rightarrow> [] | Some kvs \<Rightarrow> kvs)"

definition errorOrUnknown :: "unknown \<Rightarrow> unknown" where
  "errorOrUnknown e = (case e of JUndefined \<Rightarrow> JString ''unknown'' | _ \<Rightarrow> e)"

definition DatabaseLive :: "'w Database" where
  "DatabaseLive =
     \<lparr>db_query = (\<lambda>_ _. Effect_succeed []),
      db_execute = (\<lambda>_ _. Effect_succeed ())\<rparr>"

definition CacheLive :: "'w Cache" where
  "CacheLive =
     \<lparr>cache_get = (\<lambda>_. Effect_succeed None),
      cache_set = (\<lambda>_ _ _. Effect_succeed ()),
      cache_delete = (\<lambda>_. Effect_succeed ())\<rparr>"

definition LoggerLive :: "'x world_scheme Logger" where
  "LoggerLive =
     \<lparr>log_info = (\<lambda>msg m. Console_log [JString (''[INFO] '' @ msg), metaOrEmpty m]),
      log_error = (\<lambda>msg e m.
         Console_error [JString (''[ERROR] '' @ msg), errorOrUnknown e, metaOrEmpty m]),
      log_debug = (\<lambda>msg m. Console_debug [JString (''[DEBUG] '' @ msg), metaOrEmpty m])\<rparr>"

text \<open>The test database answers every query with one user, created \<^verbatim>\<open>new Date()\<close>.\<close>

definition DatabaseTest :: "'x world_scheme Database" where
  "DatabaseTest =
     \<lparr>db_query = (\<lambda>_ _ w.
         (Inr [\<lparr>user_id = ''test'', user_email = ''test@test.com'', user_name = ''Test'',
                user_createdAt = Date_now w\<rparr>], w)),
      db_execute = (\<lambda>_ _. Effect_succeed ())\<rparr>"

definition CacheTest :: "'w Cache" where
  "CacheTest =
     \<lparr>cache_get = (\<lambda>_. Effect_succeed None),
      cache_set = (\<lambda>_ _ _. Effect_succeed ()),
      cache_delete = (\<lambda>_. Effect_succeed ())\<rparr>"

definition LoggerTest :: "'w Logger" where
  "LoggerTest =
     \<lparr>log_info = (\<lambda>_ _ w. w),
      log_error = (\<lambda>_ _ _ w. w),
      log_debug = (\<lambda>_ _ w. w)\<rparr>"

text \<open>\<^verbatim>\<open>Layer.mergeAll\<close> of three \<^verbatim>\<open>Layer.succeed\<close> builds the context of the three services.\<close>

definition AppLayerLive :: "'x world_scheme Context" where
  "AppLayerLive = \<lparr>database = DatabaseLive, cache = CacheLive, logger = LoggerLive\<rparr>"

definition AppLayerTest :: "'x world_scheme Context" where
  "AppLayerTest = \<lparr>database = DatabaseTest, cache = CacheTest, logger = LoggerTest\<rparr>"

section \<open>Application entry point\<close>

text \<open>
  Modelled from the spec: \<^verbatim>\<open>Effect.provide\<close> and \<^verbatim>\<open>Effect.runPromise\<close> of the
  \<^verbatim>\<open>effect\<close> package.  Providing a layer hands the context to the program; running is
  the one place where the description is executed.  The promise resolves with the success
  (\<open>Inr\<close>) or rejects with the failure (\<open>Inl\<close>).
\<close>

definition Effect_provide :: "('r \<Rightarrow> ('e, 'a, 'w) Effect) \<Rightarrow> 'r \<Rightarrow> ('e, 'a, 'w) Effect" where
  "Effect_provide program layer = program layer"

definition Effect_runPromise :: "('e, 'a, 'w) Effect \<Rightarrow> 'w \<Rightarrow> ('e + 'a) \<times> 'w" where
  "Effect_runPromise m w = m w"

definition runWithLive :: "('x world_scheme Context \<Rightarrow> ('e, 'a, 'x world_scheme) Effect)
    \<Rightarrow> 'x world_scheme \<Rightarrow> ('e + 'a) \<times> 'x world_scheme" where
  "runWithLive program = Effect_runPromise (Effect_provide program AppLayerLive)"

definition runWithTest :: "('x world_scheme Context \<Rightarrow> ('e, 'a, 'x world_scheme) Effect)
    \<Rightarrow> 'x world_scheme \<Rightarrow> ('e + 'a) \<times> 'x world_scheme" where
  "runWithTest program = Effect_runPromise (Effect_provide program AppLayerTest)"

section \<open>Test doubles and sample data\<close>

text \<open>
  Concrete worlds, users and service implementations on which the theorems below are
  evaluated: a database over a fixed table of rows that answers the two queries of the
  repository, and a cache every call of which fails.
\<close>

definition world0 :: world where
  "world0 = \<lparr>clock = 3456000000, console = [],
             uuids = sconst ''1b4e28ba-2fa1-41d2-883f-0016d3cca427''\<rparr>"

definition tableDatabase :: "User list \<Rightarrow> 'w Database" where
  "tableDatabase rows =
     \<lparr>db_query = (\<lambda>sql params.
         if sql = ''SELECT * FROM users WHERE id = ?''
         then Effect_succeed (filter (\<lambda>u. params = [JString (user_id u)]) rows)
         else if sql = ''SELECT * FROM users WHERE email = ?''
         then Effect_succeed (filter (\<lambda>u. params = [JString (user_email u)]) rows)
         else Effect_succeed []),
      db_execute = (\<lambda>_ _. Effect_succeed ())\<rparr>"

definition CacheDown :: "'w Cache" where
  "CacheDown =
     \<lparr>cache_get = (\<lambda>_. Effect_fail (CacheError ''cache down'' JUndefined)),
      cache_set = (\<lambda>_ _ _. Effect_fail (CacheError ''cache down'' JUndefined)),
      cache_delete = (\<lambda>_. Effect_fail (CacheError ''cache down'' JUndefined))\<rparr>"

definition user1 :: User where
  "user1 = \<lparr>user_id = ''id1'', user_email = ''ann@example.com'', user_name = ''Ann'',
             user_createdAt = 0\<rparr>"

definition user3 :: User where
  "user3 = \<lparr>user_id = ''id3'', user_email = ''cat@example.com'', user_name = ''Cat'',
             user_createdAt = 3369600000\<rparr>"

definition batchContext :: "'x world_scheme Context" where
  "batchContext =
     \<lparr>database = tableDatabase [user1, user3], cache = CacheTest, logger = LoggerTest\<rparr>"

definition degradedContext :: "'x world_scheme Context" where
  "degradedContext =
     \<lparr>database = tableDatabase [user1, user3], cache = CacheDown, logger = LoggerLive\<rparr>"

definition DatabaseDown :: "'w Database" where
  "DatabaseDown =
     \<lparr>db_query = (\<lambda>_ _. Effect_fail (DatabaseError ''connection refused'' JUndefined)),
      db_execute = (\<lambda>_ _. Effect_fail (DatabaseError ''connection refused'' JUndefined))\<rparr>"

definition brokenContext :: "'x world_scheme Context" where
  "brokenContext = \<lparr>database = DatabaseDown, cache = CacheDown, logger = LoggerTest\<rparr>"

section \<open>Properties\<close>

lemmas effect_defs = Effect_flatMap_def Effect_succeed_def Effect_fail_def Effect_catchTag_def
  Effect_map_def widen_def infallible_def Effect_catchAll_def

lemmas double_defs = degradedContext_def brokenContext_def batchContext_def tableDatabase_def
  DatabaseDown_def CacheDown_def CacheTest_def LoggerTest_def LoggerLive_def Console_log_def
  Console_debug_def Console_error_def metaOrEmpty_def errorOrUnknown_def user1_def user3_def
  world0_def

subsection \<open>Batch results\<close>

text \<open>
  Every item of a batch ends in exactly one of the two sequences, so the sizes add up to
  the size of the input.
\<close>

lemma partition_run_length:
  "partition_run xs f w = ((es, bs), w') \<Longrightarrow> length es + length bs = length xs"
proof (induction xs arbitrary: w es bs w')
  case Nil
  then show ?case by simp
next
  case (Cons x xs)
  obtain r w1 where r: "f x w = (r, w1)" by (cases "f x w")
  obtain es' bs' w2 where rest: "partition_run xs f w1 = ((es', bs'), w2)"
    by (cases "partition_run xs f w1") auto
  from Cons.IH [OF rest] have "length es' + length bs' = length xs" .
  with Cons.prems r rest show ?case by (cases r) auto
qed

lemma processUserBatch_total_count:
  "\<exists>res w'. processUserBatch ctx ids w = (Inr res, w') \<and>
     length (successful res) + length (failed res) = length ids"
proof -
  let ?f = "\<lambda>uid. Effect_map (getUserProfile ctx uid)
              (\<lambda>profile. \<lparr>ok_userId = uid, ok_profile = profile\<rparr>)"
  obtain es bs w' where p: "partition_run ids ?f w = ((es, bs), w')"
    by (cases "partition_run ids ?f w") auto
  from partition_run_length [OF p] have "length es + length bs = length ids" .
  with p show ?thesis
    by (simp add: processUserBatch_def Effect_partition_def Effect_map_def)
qed

text \<open>Whatever the input, no entry of the failed sequence names a user id.\<close>

lemma processUserBatch_failed_ids:
  "processUserBatch ctx ids w = (Inr res, w') \<Longrightarrow> entry \<in> set (failed res)
     \<Longrightarrow> failed_userId entry = ''unknown''"
  by (auto simp: processUserBatch_def Effect_partition_def Effect_map_def split: prod.splits)

text \<open>
  C1.  A batch result should attribute every failure to the user id whose processing
  failed.  On the batch \<open>[id1, id2, id3]\<close> over a database that holds \<open>id1\<close> and
  \<open>id3\<close> only, the two profiles arrive under their ids, while the one failed entry
  carries the constant \<open>unknown\<close> in its \<open>userId\<close> field and not \<open>id2\<close>.
\<close>

theorem processUserBatch_failed_entry_placeholder:
  "processUserBatch batchContext [''id1'', ''id2'', ''id3''] world0 =
     (Inr \<lparr>successful =
        [\<lparr>ok_userId = ''id1'', ok_profile = \<lparr>user = user1, accountAge = 40, isNewUser = False\<rparr>\<rparr>,
         \<lparr>ok_userId = ''id3'', ok_profile = \<lparr>user = user3, accountAge = 1, isNewUser = True\<rparr>\<rparr>],
       failed = [\<lparr>failed_userId = ''unknown'', failed_error = ''UserNotFoundError''\<rparr>]\<rparr>, world0)"
  by (simp add: processUserBatch_def Effect_partition_def getUserProfile_def findUserById_def
      effect_defs batchContext_def tableDatabase_def CacheTest_def LoggerTest_def user1_def user3_def
      world0_def Date_now_def)

subsection \<open>Sequencing\<close>

text \<open>
  C3.  Sequencing runs the first effect to completion and hands its value and the world it
  left to the continuation; when the first effect fails, the failure and its world are the
  result whatever the continuation is, so the continuation is not run.  The composed effect
  fails with exactly the failures of the first stage and those of the continuation.  In
  \<open>registerUser\<close>, an address that does not match the pattern yields the validation error
  in an unchanged world, for every context and every name: neither the name check nor
  \<open>createUser\<close> has run.
\<close>

theorem flatMap_sequencing:
  "(a w = (Inr x, w') \<longrightarrow> Effect_flatMap a f w = f x w') \<and>
   (a w = (Inl e, w') \<longrightarrow>
      Effect_flatMap a f w = (Inl e, w') \<and> Effect_flatMap a f w = Effect_flatMap a g w) \<and>
   (fst (Effect_flatMap a f w) = Inl err \<longleftrightarrow>
      fst (a w) = Inl err \<or> (\<exists>y v. a w = (Inr y, v) \<and> fst (f y v) = Inl err)) \<and>
   (\<not> regex_test emailRegex (create_email input) \<longrightarrow>
      registerUser ctx input w0 =
        (Inl (EValidation (ValidationError ''Invalid email format'' (Some ''email''))), w0))"
  by (auto simp: effect_defs registerUser_def validateEmail_def split: prod.splits sum.splits)

theorem flatMap_sequencing_witness:
  "validateName ''Jo'' world0 = (Inr ''Jo'', world0) \<and>
   Effect_flatMap (validateName ''Jo'') (\<lambda>n. Effect_succeed (length n)) world0
     = ((Inr 2, world0) :: (ValidationError + nat) \<times> world) \<and>
   validateName ''J'' world0
     = (Inl (ValidationError ''Name must be at least 2 characters'' (Some ''name'')), world0) \<and>
   Effect_flatMap (validateName ''J'') (\<lambda>n. Effect_succeed (length n)) world0
     = (Inl (ValidationError ''Name must be at least 2 characters'' (Some ''name'')), world0) \<and>
   \<not> regex_test emailRegex (create_email \<lparr>create_email = ''not-an-email'', create_name = ''J''\<rparr>) \<and>
   registerUser AppLayerLive \<lparr>create_email = ''not-an-email'', create_name = ''J''\<rparr> world0
     = (Inl (EValidation (ValidationError ''Invalid email format'' (Some ''email''))), world0)"
proof -
  let ?f = "\<lambda>n. Effect_succeed (length n) :: (ValidationError, nat, world) Effect"
  let ?input = "\<lparr>create_email = ''not-an-email'', create_name = ''J''\<rparr>"
  let ?short = "ValidationError ''Name must be at least 2 characters'' (Some ''name'')"
  have ok: "validateName ''Jo'' world0 = (Inr ''Jo'', world0)"
    by (simp add: validateName_def Effect_succeed_def)
  have ko: "validateName ''J'' world0 = (Inl ?short, world0)"
    by (simp add: validateName_def Effect_fail_def)
  have bad: "\<not> regex_test emailRegex (create_email ?input)"
    by (simp add: regex_test_def emailRegex_def notSpaceOrAt_def RPlus_def)
  have "Effect_flatMap (validateName ''Jo'') ?f world0 = ?f ''Jo'' world0"
    by (rule flatMap_sequencing [where a = "validateName ''Jo''" and f = ?f,
          THEN conjunct1, THEN mp, OF ok])
  then have run_ok: "Effect_flatMap (validateName ''Jo'') ?f world0 = (Inr 2, world0)"
    by (simp add: Effect_succeed_def)
  have run_ko: "Effect_flatMap (validateName ''J'') ?f world0 = (Inl ?short, world0)"
    by (rule flatMap_sequencing [where a = "validateName ''J''" and f = ?f,
          THEN conjunct2, THEN conjunct1, THEN mp, OF ko, THEN conjunct1])
  have reg: "registerUser AppLayerLive ?input world0
       = (Inl (EValidation (ValidationError ''Invalid email format'' (Some ''email''))), world0)"
    by (rule flatMap_sequencing [where input = ?input,
          THEN conjunct2, THEN conjunct2, THEN conjunct2, THEN mp, OF bad])
  from ok run_ok ko run_ko bad reg show ?thesis by (intro conjI)
qed

subsection \<open>Boundary mapping and running\<close>

text \<open>
  C7.  \<open>mapErrorToResponse\<close> answers every value of the four-variant union with a
  response: the \<^verbatim>\<open>switch\<close> never falls through (the result is never \<open>None\<close>), and the
  response is the one written in the matching \<^verbatim>\<open>case\<close>.
\<close>

theorem mapErrorToResponse_total:
  "mapErrorToResponse e \<noteq> None \<and>
   mapErrorToResponse e = Some (case e of
       ENotFound _ \<Rightarrow> \<lparr>status = 404, body = JObject [(''error'', JString ''User not found'')]\<rparr>
     | EValidation v \<Rightarrow> \<lparr>status = 400,
          body = JObject [(''error'', JString (message v)), (''field'', optString (field v))]\<rparr>
     | EDatabase _ \<Rightarrow> \<lparr>status = 503, body = JObject [(''error'', JString ''Service unavailable'')]\<rparr>
     | ECache _ \<Rightarrow> \<lparr>status = 503, body = JObject [(''error'', JString ''Service degraded'')]\<rparr>)"
  by (cases e) (simp_all add: mapErrorToResponse_def getProp_def)

text \<open>
  C8.  Running \<open>succeed v\<close> yields \<open>v\<close> and leaves the world as it was, under any
  registry, and in particular under the live and the test layers; mapping the identity over
  \<open>succeed x\<close> is \<open>succeed x\<close>.
\<close>

theorem succeed_run_and_functor_identity:
  "Effect_runPromise (Effect_provide (\<lambda>_. Effect_succeed v) registry) w = (Inr v, w) \<and>
   runWithLive (\<lambda>_. Effect_succeed v) w1 = (Inr v, w1) \<and>
   runWithTest (\<lambda>_. Effect_succeed v) w2 = (Inr v, w2) \<and>
   Effect_map (Effect_succeed x) id = Effect_succeed x \<and>
   Effect_map (Effect_succeed x) (\<lambda>y. y) = Effect_succeed x"
  by (simp add: Effect_runPromise_def Effect_provide_def runWithLive_def runWithTest_def
      Effect_succeed_def Effect_map_def)

subsection \<open>Catching one variant\<close>

text \<open>
  C5.  Catching a tag hands a failure of exactly that tag, with the world the effect left,
  to the handler; a failure of any other tag is the result unchanged, whatever the handler
  is; a success passes through.  For the tag \<open>CacheError\<close>, as installed around the
  cache lookup of \<open>findUserById\<close>, the handler receives the cache error itself and is
  not run for a database error, a missing user or a validation error.
\<close>

theorem catchTag_exact_variant:
  "(m w = (Inl e, w') \<and> tag e = t \<longrightarrow> Effect_catchTag m t h w = h e w') \<and>
   (m w = (Inl e, w') \<and> tag e \<noteq> t \<longrightarrow>
      Effect_catchTag m t h w = (Inl e, w') \<and> Effect_catchTag m t h w = Effect_catchTag m t h' w) \<and>
   (m w = (Inr a, w') \<longrightarrow> Effect_catchTag m t h w = (Inr a, w')) \<and>
   (m w = (Inl e, w') \<longrightarrow>
      Effect_catchTag m ''CacheError'' h w =
        (case e of ECache _ \<Rightarrow> h e w' | _ \<Rightarrow> (Inl e, w')))"
  by (cases e) (simp_all add: Effect_catchTag_def)

theorem catchTag_exact_variant_witness:
  "widen ECache (cache_get CacheDown ''user:42'') world0
       = (Inl (ECache (CacheError ''cache down'' JUndefined)), world0) \<and>
   Effect_catchTag (widen ECache (cache_get CacheDown ''user:42'')) ''CacheError''
       (\<lambda>error. Effect_flatMap
          (infallible (log_error LoggerLive ''Cache error while fetching user''
             (toUnknown error) (Some [(''userId'', JString ''42'')])))
          (\<lambda>_. Effect_succeed None)) world0
     = (Inr None, world0\<lparr>console := [ConsoleError
          [JString ''[ERROR] Cache error while fetching user'',
           JObject [(''_tag'', JString ''CacheError''), (''message'', JString ''cache down''),
                    (''cause'', JUndefined)],
           JObject [(''userId'', JString ''42'')]]]\<rparr>) \<and>
   Effect_fail (EDatabase (DatabaseError ''db down'' JUndefined)) world0
       = (Inl (EDatabase (DatabaseError ''db down'' JUndefined)), world0) \<and>
   Effect_catchTag (Effect_fail (EDatabase (DatabaseError ''db down'' JUndefined))) ''CacheError''
       (\<lambda>error. Effect_succeed (0::nat)) world0
     = (Inl (EDatabase (DatabaseError ''db down'' JUndefined)), world0) \<and>
   Effect_fail (ENotFound (UserNotFoundError ''42'')) world0
       = (Inl (ENotFound (UserNotFoundError ''42'')), world0) \<and>
   Effect_catchTag (Effect_fail (ENotFound (UserNotFoundError ''42''))) ''CacheError''
       (\<lambda>error. Effect_succeed (0::nat)) world0
     = (Inl (ENotFound (UserNotFoundError ''42'')), world0) \<and>
   Effect_succeed (7::nat) world0 = (Inr 7, world0) \<and>
   Effect_catchTag (Effect_succeed (7::nat)) ''CacheError'' (\<lambda>error. Effect_succeed 0) world0
     = (Inr 7, world0)"
proof -
  let ?get = "widen ECache (cache_get CacheDown ''user:42'')
                :: (UserError, User option, world) Effect"
  let ?h = "\<lambda>error. Effect_flatMap
          (infallible (log_error LoggerLive ''Cache error while fetching user''
             (toUnknown error) (Some [(''userId'', JString ''42'')])))
          (\<lambda>_. Effect_succeed None) :: (UserError, User option, world) Effect"
  let ?ce = "CacheError ''cache down'' JUndefined"
  let ?dbe = "EDatabase (DatabaseError ''db down'' JUndefined)"
  let ?nf = "ENotFound (UserNotFoundError ''42'')"
  let ?k = "\<lambda>error. Effect_succeed (0::nat) :: (UserError, nat, world) Effect"
  have g: "?get world0 = (Inl (ECache ?ce), world0)"
    by (simp add: widen_def CacheDown_def Effect_fail_def)
  have "Effect_catchTag ?get ''CacheError'' ?h world0 = ?h (ECache ?ce) world0"
    by (rule catchTag_exact_variant [where m = ?get and h = ?h and t = "''CacheError''",
          THEN conjunct1, THEN mp]) (simp add: g)
  then have c1: "Effect_catchTag ?get ''CacheError'' ?h world0 =
      (Inr None, world0\<lparr>console := [ConsoleError
          [JString ''[ERROR] Cache error while fetching user'',
           JObject [(''_tag'', JString ''CacheError''), (''message'', JString ''cache down''),
                    (''cause'', JUndefined)],
           JObject [(''userId'', JString ''42'')]]]\<rparr>)"
    by (simp add: effect_defs LoggerLive_def Console_error_def world0_def errorOrUnknown_def
        metaOrEmpty_def)
  have d: "Effect_fail ?dbe world0 = (Inl ?dbe, world0)"
    by (simp add: Effect_fail_def)
  have c2: "Effect_catchTag (Effect_fail ?dbe) ''CacheError'' ?k world0 = (Inl ?dbe, world0)"
    by (rule catchTag_exact_variant [where m = "Effect_fail ?dbe" and h = ?k
          and t = "''CacheError''", THEN conjunct2, THEN conjunct1, THEN mp, THEN conjunct1])
      (simp add: d)
  have n: "Effect_fail ?nf world0 = (Inl ?nf, world0)"
    by (simp add: Effect_fail_def)
  have "Effect_catchTag (Effect_fail ?nf) ''CacheError'' ?k world0 =
      (case ?nf of ECache _ \<Rightarrow> ?k ?nf world0 | _ \<Rightarrow> (Inl ?nf, world0))"
    by (rule catchTag_exact_variant [where m = "Effect_fail ?nf" and h = ?k,
          THEN conjunct2, THEN conjunct2, THEN conjunct2, THEN mp, OF n])
  then have c3: "Effect_catchTag (Effect_fail ?nf) ''CacheError'' ?k world0 = (Inl ?nf, world0)"
    by simp
  have s: "Effect_succeed (7::nat) world0 = (Inr 7, world0)"
    by (simp add: Effect_succeed_def)
  have c4: "Effect_catchTag (Effect_succeed (7::nat)) ''CacheError'' ?k world0 = (Inr 7, world0)"
    by (rule catchTag_exact_variant [where m = "Effect_succeed 7" and h = ?k,
          THEN conjunct2, THEN conjunct2, THEN conjunct1, THEN mp, OF s])
  from g c1 d c2 n c3 s c4 show ?thesis by (intro conjI)
qed

subsection \<open>Looking a user up\<close>

text \<open>
  C6.  When \<open>cache.get\<close> fails (or misses), \<open>findUserById\<close> logs the failure and goes
  on to the database, in the world the log left.  What the query returns decides the
  result: its \<open>DatabaseError\<close> is surfaced, an empty result is surfaced as
  \<open>UserNotFoundError\<close> for the id asked, and a row is returned as the user, after an
  attempt to cache it whose failure is logged and nothing more.
\<close>

theorem findUserById_cache_failure_degrades:
  fixes ctx :: "'w Context"
  assumes start: "w0 = log_debug (logger ctx) ''Finding user by ID'' (Some [(''userId'', JString uid)]) w"
    and lookup: "cache_get (cache ctx) (''user:'' @ uid) w0 = (r, w1)"
    and no_hit: "r = Inl ce \<or> r = Inr None"
    and recovered: "w2 = (case r of
          Inl err \<Rightarrow> log_error (logger ctx) ''Cache error while fetching user''
                       (toUnknown (ECache err)) (Some [(''userId'', JString uid)]) w1
        | Inr _ \<Rightarrow> w1)"
    and queried: "db_query (database ctx) ''SELECT * FROM users WHERE id = ?'' [JString uid] w2 = (q, w3)"
  shows "(case q of
            Inl de \<Rightarrow> findUserById ctx uid w = (Inl (EDatabase de), w3)
          | Inr [] \<Rightarrow> findUserById ctx uid w = (Inl (ENotFound (UserNotFoundError uid)), w3)
          | Inr (u # _) \<Rightarrow>
              findUserById ctx uid w =
                (Inr u,
                 case cache_set (cache ctx) (''user:'' @ uid) u (Some 300) w3 of
                   (Inl err, w4) \<Rightarrow> log_error (logger ctx) ''Failed to cache user''
                       (toUnknown (ECache err)) (Some [(''userId'', JString uid)]) w4
                 | (Inr _, w4) \<Rightarrow> w4))"
  using assms
  by (auto simp: effect_defs findUserById_def split: prod.splits sum.splits option.splits list.splits)

theorem findUserById_cache_failure_degrades_witness:
  "(let down = CacheError ''cache down'' JUndefined;
        w0 = log_debug (logger degradedContext) ''Finding user by ID''
               (Some [(''userId'', JString ''id1'')]) world0;
        w2 = log_error (logger degradedContext) ''Cache error while fetching user''
               (toUnknown (ECache down)) (Some [(''userId'', JString ''id1'')]) w0
    in cache_get (cache degradedContext) (''user:'' @ ''id1'') w0 = (Inl down, w0) \<and>
       db_query (database degradedContext) ''SELECT * FROM users WHERE id = ?'' [JString ''id1''] w2
         = (Inr [user1], w2) \<and>
       fst (findUserById degradedContext ''id1'' world0) = Inr user1 \<and>
       length (console (snd (findUserById degradedContext ''id1'' world0))) = 3) \<and>
   cache_get (cache brokenContext) (''user:'' @ ''id1'') world0
     = (Inl (CacheError ''cache down'' JUndefined), world0) \<and>
   db_query (database brokenContext) ''SELECT * FROM users WHERE id = ?'' [JString ''id1''] world0
     = (Inl (DatabaseError ''connection refused'' JUndefined), world0) \<and>
   findUserById brokenContext ''id1'' world0
     = (Inl (EDatabase (DatabaseError ''connection refused'' JUndefined)), world0)"
proof -
  let ?down = "CacheError ''cache down'' JUndefined"
  let ?w0 = "log_debug (logger degradedContext) ''Finding user by ID''
               (Some [(''userId'', JString ''id1'')]) world0"
  let ?w2 = "log_error (logger degradedContext) ''Cache error while fetching user''
               (toUnknown (ECache ?down)) (Some [(''userId'', JString ''id1'')]) ?w0"
  have lookup: "cache_get (cache degradedContext) (''user:'' @ ''id1'') ?w0 = (Inl ?down, ?w0)"
    by (simp add: double_defs Effect_fail_def)
  have queried: "db_query (database degradedContext) ''SELECT * FROM users WHERE id = ?''
       [JString ''id1''] ?w2 = (Inr [user1], ?w2)"
    by (simp add: double_defs Effect_succeed_def)
  have recovered: "?w2 = (case (Inl ?down :: CacheError + User option) of
          Inl err \<Rightarrow> log_error (logger degradedContext) ''Cache error while fetching user''
                       (toUnknown (ECache err)) (Some [(''userId'', JString ''id1'')]) ?w0
        | Inr _ \<Rightarrow> ?w0)"
    by simp
  have "case (Inr [user1] :: DatabaseError + User list) of
            Inl de \<Rightarrow> findUserById degradedContext ''id1'' world0 = (Inl (EDatabase de), ?w2)
          | Inr [] \<Rightarrow> findUserById degradedContext ''id1'' world0
                = (Inl (ENotFound (UserNotFoundError ''id1'')), ?w2)
          | Inr (u # _) \<Rightarrow>
              findUserById degradedContext ''id1'' world0 =
                (Inr u,
                 case cache_set (cache degradedContext) (''user:'' @ ''id1'') u (Some 300) ?w2 of
                   (Inl err, w4) \<Rightarrow> log_error (logger degradedContext) ''Failed to cache user''
                       (toUnknown (ECache err)) (Some [(''userId'', JString ''id1'')]) w4
                 | (Inr _, w4) \<Rightarrow> w4)"
    by (rule findUserById_cache_failure_degrades
          [OF refl lookup disjI1 [OF refl] recovered queried])
  then have found: "fst (findUserById degradedContext ''id1'' world0) = Inr user1 \<and>
       length (console (snd (findUserById degradedContext ''id1'' world0))) = 3"
    by (simp add: double_defs Effect_fail_def)
  have lookup': "cache_get (cache brokenContext) (''user:'' @ ''id1'') world0 = (Inl ?down, world0)"
    by (simp add: double_defs Effect_fail_def)
  have queried': "db_query (database brokenContext) ''SELECT * FROM users WHERE id = ?''
       [JString ''id1''] world0 = (Inl (DatabaseError ''connection refused'' JUndefined), world0)"
    by (simp add: double_defs Effect_fail_def)
  have start': "world0 = log_debug (logger brokenContext) ''Finding user by ID''
       (Some [(''userId'', JString ''id1'')]) world0"
    by (simp add: double_defs)
  have recovered': "world0 = (case (Inl ?down :: CacheError + User option) of
          Inl err \<Rightarrow> log_error (logger brokenContext) ''Cache error while fetching user''
                       (toUnknown (ECache err)) (Some [(''userId'', JString ''id1'')]) world0
        | Inr _ \<Rightarrow> world0)"
    by (simp add: double_defs)
  have "case (Inl (DatabaseError ''connection refused'' JUndefined) :: DatabaseError + User list) of
            Inl de \<Rightarrow> findUserById brokenContext ''id1'' world0 = (Inl (EDatabase de), world0)
          | Inr [] \<Rightarrow> findUserById brokenContext ''id1'' world0
                = (Inl (ENotFound (UserNotFoundError ''id1'')), world0)
          | Inr (u # _) \<Rightarrow>
              findUserById brokenContext ''id1'' world0 =
                (Inr u,
                 case cache_set (cache brokenContext) (''user:'' @ ''id1'') u (Some 300) world0 of
                   (Inl err, w4) \<Rightarrow> log_error (logger brokenContext) ''Failed to cache user''
                       (toUnknown (ECache err)) (Some [(''userId'', JString ''id1'')]) w4
                 | (Inr _, w4) \<Rightarrow> w4)"
    by (rule findUserById_cache_failure_degrades
          [OF start' lookup' disjI1 [OF refl] recovered' queried'])
  then have broken: "findUserById brokenContext ''id1'' world0
     = (Inl (EDatabase (DatabaseError ''connection refused'' JUndefined)), world0)"
    by simp
  from lookup queried found lookup' queried' broken show ?thesis
    by (simp only: Let_def)
qed

text \<open>
  C9.  \<open>findUserById\<close> never fails with a \<open>CacheError\<close>, whatever the services do:
  a failure of it is the \<open>UserNotFoundError\<close> of the id asked or a \<open>DatabaseError\<close>.
\<close>

theorem findUserById_never_CacheError:
  "fst (findUserById ctx uid w) \<noteq> Inl (ECache ce) \<and>
   (fst (findUserById ctx uid w) = Inl e \<longrightarrow>
        e = ENotFound (UserNotFoundError uid) \<or> (\<exists>de. e = EDatabase de))"
  by (auto simp: effect_defs findUserById_def split: prod.splits sum.splits option.splits list.splits if_splits)

theorem findUserById_never_CacheError_witness:
  "fst (findUserById degradedContext ''id2'' world0) = Inl (ENotFound (UserNotFoundError ''id2'')) \<and>
   fst (findUserById degradedContext ''id2'' world0) \<noteq> Inl (ECache (CacheError ''cache down'' JUndefined)) \<and>
   (ENotFound (UserNotFoundError ''id2'') = ENotFound (UserNotFoundError ''id2'') \<or>
      (\<exists>de. ENotFound (UserNotFoundError ''id2'') = EDatabase de)) \<and>
   fst (findUserById degradedContext ''id1'' world0) = Inr user1"
proof -
  note never = findUserById_never_CacheError [where ctx = degradedContext and uid = "''id2''"
      and w = world0 and ce = "CacheError ''cache down'' JUndefined"
      and e = "ENotFound (UserNotFoundError ''id2'')"]
  have missing: "fst (findUserById degradedContext ''id2'' world0)
      = Inl (ENotFound (UserNotFoundError ''id2''))"
    by (simp add: findUserById_def effect_defs double_defs)
  have found: "fst (findUserById degradedContext ''id1'' world0) = Inr user1"
    by (simp add: findUserById_def effect_defs double_defs)
  from missing never [THEN conjunct1] never [THEN conjunct2, THEN mp, OF missing] found
  show ?thesis by (intro conjI)
qed

subsection \<open>Updating a user\<close>

lemma flatMap_Inr_iff:
  "(Effect_flatMap m f w = (Inr b, w')) = (\<exists>a w1. m w = (Inr a, w1) \<and> f a w1 = (Inr b, w'))"
  by (auto simp: Effect_flatMap_def split: prod.splits sum.splits)

lemma infallible_apply: "infallible m w = (Inr (), m w)"
  by (simp add: infallible_def)

lemma succeed_apply: "Effect_succeed v w = (Inr v, w)"
  by (simp add: Effect_succeed_def)

text \<open>
  C10.  When \<open>updateUser\<close> returns a user, \<open>findUserById\<close> has returned the stored
  user, and the two agree on \<open>id\<close> and \<open>createdAt\<close>; \<open>email\<close> and \<open>name\<close> are
  those of the input where the input has them and those of the stored user otherwise, so a
  field differs from the stored one only when the input provides it.
\<close>

theorem updateUser_preserves_id_and_createdAt:
  assumes "updateUser ctx uid input w = (Inr u', w')"
  shows "\<exists>u w1.
      findUserById ctx uid
         (log_info (logger ctx) ''Updating user''
            (Some [(''userId'', JString uid),
                   (''fields'', JArray (map JString (Object_keys input)))]) w) = (Inr u, w1) \<and>
      user_id u' = user_id u \<and>
      user_createdAt u' = user_createdAt u \<and>
      user_email u' = (case update_email input of None \<Rightarrow> user_email u | Some v \<Rightarrow> v) \<and>
      user_name u' = (case update_name input of None \<Rightarrow> user_name u | Some v \<Rightarrow> v) \<and>
      (user_email u' \<noteq> user_email u \<longrightarrow> update_email input \<noteq> None) \<and>
      (user_name u' \<noteq> user_name u \<longrightarrow> update_name input \<noteq> None)"
proof -
  from assms obtain u w1 where
    found: "findUserById ctx uid
         (log_info (logger ctx) ''Updating user''
            (Some [(''userId'', JString uid),
                   (''fields'', JArray (map JString (Object_keys input)))]) w) = (Inr u, w1)"
    and updated: "u' = u
      \<lparr>user_email := (case update_email input of None \<Rightarrow> user_email u | Some v \<Rightarrow> v),
       user_name := (case update_name input of None \<Rightarrow> user_name u | Some v \<Rightarrow> v)\<rparr>"
    unfolding updateUser_def
    by (simp add: flatMap_Inr_iff infallible_apply succeed_apply Let_def del: ex_simps) blast
  from updated have "user_id u' = user_id u" "user_createdAt u' = user_createdAt u"
    "user_email u' = (case update_email input of None \<Rightarrow> user_email u | Some v \<Rightarrow> v)"
    "user_name u' = (case update_name input of None \<Rightarrow> user_name u | Some v \<Rightarrow> v)"
    by simp_all
  moreover from this have "user_email u' \<noteq> user_email u \<longrightarrow> update_email input \<noteq> None"
    "user_name u' \<noteq> user_name u \<longrightarrow> update_name input \<noteq> None"
    by (auto split: option.splits)
  ultimately show ?thesis using found by blast
qed

theorem updateUser_preserves_id_and_createdAt_witness:
  "updateUser batchContext ''id1'' \<lparr>update_email = Some ''ann@new.example'', update_name = None\<rparr> world0
     = (Inr (user1\<lparr>user_email := ''ann@new.example''\<rparr>), world0) \<and>
   (\<exists>u w1.
      findUserById batchContext ''id1''
         (log_info (logger batchContext) ''Updating user''
            (Some [(''userId'', JString ''id1''),
                   (''fields'', JArray (map JString
                      (Object_keys \<lparr>update_email = Some ''ann@new.example'', update_name = None\<rparr>)))])
            world0) = (Inr u, w1) \<and>
      user_id (user1\<lparr>user_email := ''ann@new.example''\<rparr>) = user_id u \<and>
      user_createdAt (user1\<lparr>user_email := ''ann@new.example''\<rparr>) = user_createdAt u \<and>
      user_email (user1\<lparr>user_email := ''ann@new.example''\<rparr>) =
        (case update_email \<lparr>update_email = Some ''ann@new.example'', update_name = None\<rparr> of
           None \<Rightarrow> user_email u | Some v \<Rightarrow> v) \<and>
      user_name (user1\<lparr>user_email := ''ann@new.example''\<rparr>) =
        (case update_name \<lparr>update_email = Some ''ann@new.example'', update_name = None\<rparr> of
           None \<Rightarrow> user_name u | Some v \<Rightarrow> v) \<and>
      (user_email (user1\<lparr>user_email := ''ann@new.example''\<rparr>) \<noteq> user_email u \<longrightarrow>
         update_email \<lparr>update_email = Some ''ann@new.example'', update_name = None\<rparr> \<noteq> None) \<and>
      (user_name (user1\<lparr>user_email := ''ann@new.example''\<rparr>) \<noteq> user_name u \<longrightarrow>
         update_name \<lparr>update_email = Some ''ann@new.example'', update_name = None\<rparr> \<noteq> None))"
proof -
  have run: "updateUser batchContext ''id1''
       \<lparr>update_email = Some ''ann@new.example'', update_name = None\<rparr> world0
     = (Inr (user1\<lparr>user_email := ''ann@new.example''\<rparr>), world0)"
    by (simp add: updateUser_def findUserById_def findUserByEmail_def effect_defs double_defs
        Object_keys_def)
  from run updateUser_preserves_id_and_createdAt [OF run] show ?thesis by (rule conjI)
qed

subsection \<open>Retrying\<close>

lemma retry_loop_fail:
  "isl (fst (m w)) \<Longrightarrow>
   retry_loop stp s m w =
     (case stp s of
        None \<Rightarrow> Some (m w)
      | Some (s', d) \<Rightarrow> retry_loop stp s' m (sleep d (snd (m w))))"
  by (subst retry_loop.simps) (auto split: prod.splits sum.splits option.splits)

lemma retry_loop_stop:
  "isl (fst (m w)) \<Longrightarrow> stp s = None \<Longrightarrow> retry_loop stp s m w = Some (m w)"
  by (simp add: retry_loop_fail)

lemma retry_loop_again:
  "isl (fst (m w)) \<Longrightarrow> stp s = Some (s', d) \<Longrightarrow>
   retry_loop stp s m w = retry_loop stp s' m (sleep d (snd (m w)))"
  by (simp add: retry_loop_fail)

lemma retry_loop_success:
  "m w = (Inr a, w') \<Longrightarrow> retry_loop stp s m w = Some (Inr a, w')"
  by (subst retry_loop.simps) simp

lemma sleep_zero: "sleep 0 w = w"
  by (simp add: sleep_def)

lemma retry_loop_recurs:
  assumes fails: "\<forall>v. isl (fst (m v))"
  shows "j = n - k \<Longrightarrow> k \<le> n \<Longrightarrow>
     retry_loop (sched_step (Schedule_recurs n)) k m w
       = Some (m (((\<lambda>v. snd (m v)) ^^ j) w))"
proof (induction j arbitrary: k w)
  case 0
  then have "sched_step (Schedule_recurs n) k = None"
    by (simp add: Schedule_recurs_def)
  with fails show ?case
    by (simp add: retry_loop_stop)
next
  case (Suc j)
  then have next_step: "sched_step (Schedule_recurs n) k = Some (Suc k, 0)"
    by (simp add: Schedule_recurs_def)
  from Suc.prems have "j = n - Suc k" "Suc k \<le> n" by simp_all
  from Suc.IH [OF this]
  have "retry_loop (sched_step (Schedule_recurs n)) (Suc k) m (snd (m w))
      = Some (m (((\<lambda>v. snd (m v)) ^^ j) (snd (m w))))" .
  moreover from fails have "isl (fst (m w))" by blast
  from retry_loop_again [where m = m and w = w and stp = "sched_step (Schedule_recurs n)"
      and s = k, OF this next_step]
  have "retry_loop (sched_step (Schedule_recurs n)) k m w
      = retry_loop (sched_step (Schedule_recurs n)) (Suc k) m (snd (m w))"
    by (simp add: sleep_zero)
  ultimately show ?case
    using funpow_swap1 [of "\<lambda>v. snd (m v)" j w] by simp
qed

text \<open>
  C4.  An effect that always fails, retried under \<open>recurs 3\<close>, is run four times in a
  row, each run in the world the one before left, and the outcome of the fourth run is the
  result: its failure, unchanged.  \<open>processWithRetry\<close> runs \<open>getUserProfile\<close> four
  times as well, sleeping 100, 200 and 400 milliseconds in between, and returns.
\<close>

theorem retry_recurs_three_runs_four_times:
  "((\<forall>v. isl (fst (m v))) \<longrightarrow>
      Effect_retry m (Schedule_recurs 3) w = Some (m (snd (m (snd (m (snd (m w)))))))) \<and>
   ((\<forall>v. isl (fst (getUserProfile ctx uid v))) \<longrightarrow>
      processWithRetry ctx uid w0 =
        Some (getUserProfile ctx uid
          (sleep 400 (snd (getUserProfile ctx uid
            (sleep 200 (snd (getUserProfile ctx uid
              (sleep 100 (snd (getUserProfile ctx uid w0)))))))))))"
proof (intro conjI impI)
  assume fails: "\<forall>v. isl (fst (m v))"
  from retry_loop_recurs [OF fails, of 3 3 0 w]
  show "Effect_retry m (Schedule_recurs 3) w = Some (m (snd (m (snd (m (snd (m w)))))))"
    by (simp add: Effect_retry_def Schedule_recurs_def numeral_3_eq_3)
next
  let ?g = "getUserProfile ctx uid"
  let ?sched = "Schedule_compose (Schedule_exponential 100) (Schedule_recurs 3)"
  let ?stp = "sched_step ?sched"
  assume "\<forall>v. isl (fst (?g v))"
  then have fails: "isl (fst (?g v))" for v by blast
  have s0: "?stp (0, 0) = Some ((1, 1), 100)"
    and s1: "?stp (1, 1) = Some ((2, 2), 200)"
    and s2: "?stp (2, 2) = Some ((3, 3), 400)"
    and s3: "?stp (3, 3) = None"
    by (simp_all add: Schedule_compose_def Schedule_exponential_def Schedule_recurs_def)
  let ?w1 = "sleep 100 (snd (?g w0))"
  let ?w2 = "sleep 200 (snd (?g ?w1))"
  let ?w3 = "sleep 400 (snd (?g ?w2))"
  have "processWithRetry ctx uid w0 = retry_loop ?stp (0, 0) ?g w0"
    by (simp add: processWithRetry_def Effect_retry_def Schedule_compose_def
        Schedule_exponential_def Schedule_recurs_def)
  also have "\<dots> = retry_loop ?stp (1, 1) ?g ?w1"
    by (rule retry_loop_again) (simp_all only: fails s0)
  also have "\<dots> = retry_loop ?stp (2, 2) ?g ?w2"
    by (rule retry_loop_again) (simp_all only: fails s1)
  also have "\<dots> = retry_loop ?stp (3, 3) ?g ?w3"
    by (rule retry_loop_again) (simp_all only: fails s2)
  also have "\<dots> = Some (?g ?w3)"
    by (rule retry_loop_stop) (simp_all only: fails s3)
  finally show "processWithRetry ctx uid w0 = Some (?g ?w3)" .
qed

theorem retry_recurs_three_runs_four_times_witness:
  "(\<forall>v :: world. isl (fst (getUserProfile AppLayerLive ''ghost'' v))) \<and>
   Effect_retry (getUserProfile AppLayerLive ''ghost'') (Schedule_recurs 3) world0 =
     Some (Inl (ENotFound (UserNotFoundError ''ghost'')),
           world0\<lparr>console := replicate 4
             (ConsoleDebug [JString ''[DEBUG] Finding user by ID'',
                            JObject [(''userId'', JString ''ghost'')]])\<rparr>) \<and>
   processWithRetry AppLayerLive ''ghost'' world0 =
     Some (Inl (ENotFound (UserNotFoundError ''ghost'')),
           world0\<lparr>clock := 3456000700,
                  console := replicate 4
             (ConsoleDebug [JString ''[DEBUG] Finding user by ID'',
                            JObject [(''userId'', JString ''ghost'')]])\<rparr>)"
proof -
  let ?g = "getUserProfile AppLayerLive ''ghost'' :: (UserError, UserProfile, world) Effect"
  let ?line = "ConsoleDebug [JString ''[DEBUG] Finding user by ID'',
                            JObject [(''userId'', JString ''ghost'')]]"
  have run: "?g v = (Inl (ENotFound (UserNotFoundError ''ghost'')),
                     v\<lparr>console := console v @ [?line]\<rparr>)" for v :: world
    by (simp add: getUserProfile_def findUserById_def effect_defs AppLayerLive_def
        DatabaseLive_def CacheLive_def LoggerLive_def Console_debug_def metaOrEmpty_def)
  have fails: "\<forall>v :: world. isl (fst (?g v))"
    by (simp add: run)
  have "Effect_retry ?g (Schedule_recurs 3) world0
      = Some (?g (snd (?g (snd (?g (snd (?g world0)))))))"
    by (rule retry_recurs_three_runs_four_times [where m = ?g and w = world0,
          THEN conjunct1, THEN mp, OF fails])
  then have plain: "Effect_retry ?g (Schedule_recurs 3) world0 =
     Some (Inl (ENotFound (UserNotFoundError ''ghost'')),
           world0\<lparr>console := replicate 4 ?line\<rparr>)"
    by (simp add: run world0_def numeral_eq_Suc)
  have "processWithRetry AppLayerLive ''ghost'' world0
      = Some (?g (sleep 400 (snd (?g (sleep 200 (snd (?g (sleep 100 (snd (?g world0))))))))))"
    by (rule retry_recurs_three_runs_four_times [where ctx = AppLayerLive and uid = "''ghost''"
          and ?w0.0 = world0, THEN conjunct2, THEN mp, OF fails])
  then have backoff: "processWithRetry AppLayerLive ''ghost'' world0 =
     Some (Inl (ENotFound (UserNotFoundError ''ghost'')),
           world0\<lparr>clock := 3456000700, console := replicate 4 ?line\<rparr>)"
    by (simp add: run sleep_def world0_def numeral_eq_Suc)
  from fails plain backoff show ?thesis by (intro conjI)
qed

end
